theory Spec2Isabelle
  imports Complex_Main
begin

section \<open>Python values and failures\<close>

text \<open>
  The development embeds \<^verbatim>\<open>lib/models/fully_connected.py\<close>: the class
  \<^verbatim>\<open>FullyConnectedModel\<close> with its methods \<^verbatim>\<open>_construct\<close>,
  \<^verbatim>\<open>_get_encoding_form\<close>, \<^verbatim>\<open>_output_error\<close>, \<^verbatim>\<open>infer\<close>,
  \<^verbatim>\<open>generate\<close>, \<^verbatim>\<open>re_init\<close>, \<^verbatim>\<open>inference_parameters\<close> and
  \<^verbatim>\<open>generative_parameters\<close>. A leading underscore is not an Isabelle
  identifier, so \<^verbatim>\<open>_construct\<close> is \<open>construct\<close>, and so on.

  Every exception the methods themselves can raise is a constructor of \<open>error\<close>,
  and so is the RuntimeError with which the tensor library refuses operands whose
  shapes do not broadcast; a method returns \<open>error + 'a\<close>, with \<open>Inl\<close> for
  the exception.
\<close>

datatype error = IndexError | NameError | TypeError | NotImplementedError | RuntimeError

definition bind_result :: "error + 'a \<Rightarrow> ('a \<Rightarrow> error + 'b) \<Rightarrow> error + 'b" where
  "bind_result r f = (case r of Inl e \<Rightarrow> Inl e | Inr v \<Rightarrow> f v)"

text \<open>
  \<^verbatim>\<open>xs[i]\<close> for the indices the file uses (\<^verbatim>\<open>level_ind\<close>,
  \<^verbatim>\<open>level_ind+1\<close>, \<^verbatim>\<open>0\<close>, \<^verbatim>\<open>1\<close>: never negative): an index past the end
  raises IndexError, for a list, a tuple and an \<^verbatim>\<open>nn.ModuleList\<close> alike.
\<close>

definition getitem :: "'a list \<Rightarrow> nat \<Rightarrow> error + 'a" where
  "getitem xs i = (if i < length xs then Inr (xs ! i) else Inl IndexError)"

section \<open>Configuration\<close>

text \<open>
  The keyword arguments of \<^verbatim>\<open>_construct\<close>, which \<^verbatim>\<open>__init__\<close> passes as
  \<^verbatim>\<open>**model_config\<close>.
\<close>

record model_config =
  inference_input_form :: "string list"
  constant_variances_gen :: bool
  n_latent :: "int list"
  n_layers_inf :: "int list"
  n_layers_gen :: "int list"
  n_units_inf :: "int list"
  n_units_gen :: "int list"
  non_linearity_inf :: string
  non_linearity_gen :: string
  connection_type_inf :: string
  connection_type_gen :: string
  batch_norm_inf :: bool
  batch_norm_gen :: bool

text \<open>
  The dictionaries built per level (lines 48 to 68). The key \<^verbatim>\<open>'n_in'\<close> of
  \<^verbatim>\<open>latent_config\<close> (a two-element list) is \<open>lat_n_in\<close>; the key
  \<^verbatim>\<open>'inference_procedure'\<close> is \<open>lat_inference_procedure\<close> in
  \<^verbatim>\<open>latent_config\<close> and \<open>lvl_inference_procedure\<close> in \<^verbatim>\<open>level_config\<close>.
\<close>

record latent_config =
  lat_n_in :: "int list"
  n_variables :: int
  lat_inference_procedure :: "string list"

record network_config =
  n_in :: "int option"
  n_units :: int
  connection_type :: string
  non_linearity :: string
  batch_norm :: bool

record level_config =
  latent_config :: latent_config
  lvl_inference_procedure :: "string list"
  inference_config :: network_config
  generative_config :: network_config

section \<open>The model object\<close>

text \<open>
  A latent level (\<^verbatim>\<open>FullyConnectedLatentLevel\<close>, defined outside this file) owns
  its latent variable, \<^verbatim>\<open>level.latent\<close>, and its networks.
\<close>

record ('lat, 'b) level =
  latent :: 'lat
  networks :: 'b

datatype dist_family = Normal | Bernoulli | Multinomial

record 't distribution =
  family :: dist_family
  mean :: 't
  log_var :: 't

text \<open>
  The attributes of \<^verbatim>\<open>self\<close> the methods read and write. \<^verbatim>\<open>_construct\<close>
  sets the first two; the output modules and the output distribution are set outside
  this file.
\<close>

record ('t, 'lat, 'b, 'n) model =
  inference_procedure :: "string list"
  latent_levels :: "('lat, 'b) level list"
  output_network :: 'n
  output_mean :: 'n
  output_log_var :: 'n
  output_dist :: "'t distribution"

section \<open>Construction\<close>

text \<open>
  The body of the loop of \<^verbatim>\<open>_construct\<close> up to the call of the level's
  constructor, each subscript in the order Python evaluates it (lines 51, 52, 59, 64,
  65).
\<close>

definition build_level_config :: "model_config \<Rightarrow> nat \<Rightarrow> error + level_config" where
  "build_level_config cfg level_ind =
     bind_result (getitem (n_units_inf cfg) level_ind) (\<lambda>units_inf.
     bind_result (getitem (n_units_gen cfg) (level_ind + 1)) (\<lambda>units_gen.
     bind_result (getitem (n_latent cfg) level_ind) (\<lambda>n_vars.
     bind_result (getitem (n_units_inf cfg) level_ind) (\<lambda>units_inf'.
     bind_result (getitem (n_latent cfg) (level_ind + 1)) (\<lambda>latent_above.
     bind_result (getitem (n_units_gen cfg) (level_ind + 1)) (\<lambda>units_gen'.
     Inr \<lparr>latent_config =
            \<lparr>lat_n_in = [units_inf, units_gen],
             n_variables = n_vars,
             lat_inference_procedure = inference_input_form cfg\<rparr>,
          lvl_inference_procedure = inference_input_form cfg,
          inference_config =
            \<lparr>n_in = None,
             n_units = units_inf',
             connection_type = connection_type_inf cfg,
             non_linearity = non_linearity_inf cfg,
             batch_norm = batch_norm_inf cfg\<rparr>,
          generative_config =
            \<lparr>n_in = Some latent_above,
             n_units = units_gen',
             connection_type = connection_type_gen cfg,
             non_linearity = non_linearity_gen cfg,
             batch_norm = batch_norm_gen cfg\<rparr>\<rparr>))))))"

text \<open>
  \<^verbatim>\<open>for level_ind in range(len(n_latent))\<close>: \<open>mk\<close> is the constructor
  \<^verbatim>\<open>FullyConnectedLatentLevel\<close>, \<open>levels\<close> the module list so far.
\<close>

fun construct_loop ::
  "(level_config \<Rightarrow> ('lat, 'b) level) \<Rightarrow> model_config \<Rightarrow> nat list \<Rightarrow>
   ('lat, 'b) level list \<Rightarrow> error + ('lat, 'b) level list" where
  "construct_loop mk cfg [] levels = Inr levels"
| "construct_loop mk cfg (level_ind # rest) levels =
     bind_result (build_level_config cfg level_ind) (\<lambda>level_config.
       construct_loop mk cfg rest (levels @ [mk level_config]))"

text \<open>
  \<^verbatim>\<open>_construct\<close>, on the object \<open>self\<close> that \<^verbatim>\<open>Model.__init__\<close> left.
\<close>

definition construct ::
  "(level_config \<Rightarrow> ('lat, 'b) level) \<Rightarrow> ('t, 'lat, 'b, 'n) model \<Rightarrow> model_config \<Rightarrow>
   error + ('t, 'lat, 'b, 'n) model" where
  "construct mk self cfg =
     bind_result (construct_loop mk cfg [0..<length (n_latent cfg)] []) (\<lambda>levels.
       Inr (self\<lparr>inference_procedure := inference_input_form cfg,
                 latent_levels := levels\<rparr>))"

section \<open>Names bound in the module\<close>

text \<open>
  The import statements of the file (lines 1 to 7) and its class statement bind exactly
  these global names. \<^verbatim>\<open>import torch.nn as nn\<close> binds \<^verbatim>\<open>nn\<close> and nothing
  else: the name \<^verbatim>\<open>torch\<close> is bound nowhere in the module, and it is no
  builtin. Loading an unbound global raises NameError.
\<close>

definition module_globals :: "string list" where
  "module_globals =
     [''nn'', ''Model'', ''FullyConnectedLatentLevel'', ''FullyConnectedNetwork'',
      ''FullyConnectedLayer'', ''Normal'', ''Bernoulli'', ''Multinomial'', ''LayerNorm'',
      ''FullyConnectedModel'']"

definition load_global :: "string \<Rightarrow> error + unit" where
  "load_global name = (if name \<in> set module_globals then Inr () else Inl NameError)"

section \<open>The tensor library and the collaborators\<close>

text \<open>
  Tensors are values of a type \<open>'t\<close> of the tensor library; the operations the
  methods apply to them are the fields of \<open>tensor_ops\<close>. A Python float literal
  is passed as the rational number it denotes (\<^verbatim>\<open>0.5\<close>, \<^verbatim>\<open>1e-7\<close>).
  \<open>layer_norm x\<close> is \<^verbatim>\<open>LayerNorm()(x)\<close>. \<open>t_sub x y\<close> is the
  difference \<^verbatim>\<open>x - y\<close> of two tensors, which the library refuses with an
  exception when the shapes of \<open>x\<close> and \<open>y\<close> do not broadcast: it returns
  \<open>error + 't\<close>. It is the one operation on two tensors that the methods reach
  before the name \<^verbatim>\<open>torch\<close> is looked up; the other operations are taken to
  return a tensor.
\<close>

record 't tensor_ops =
  t_shape :: "'t \<Rightarrow> nat list"
  t_detach :: "'t \<Rightarrow> 't"
  t_unsqueeze :: "'t \<Rightarrow> nat \<Rightarrow> 't"
  t_repeat :: "'t \<Rightarrow> nat list \<Rightarrow> 't"
  t_sub :: "'t \<Rightarrow> 't \<Rightarrow> error + 't"
  t_sub_scalar :: "'t \<Rightarrow> rat \<Rightarrow> 't"
  t_add_scalar :: "'t \<Rightarrow> rat \<Rightarrow> 't"
  t_div :: "'t \<Rightarrow> 't \<Rightarrow> 't"
  t_exp :: "'t \<Rightarrow> 't"
  t_cat :: "'t list \<Rightarrow> nat \<Rightarrow> 't"
  t_mean :: "'t \<Rightarrow> nat \<Rightarrow> 't"
  layer_norm :: "'t \<Rightarrow> 't"

text \<open>
  The classes the model is built from live outside this file: latent levels, their
  latent variables, the output modules and the output distribution. Their methods are
  the fields of \<open>collaborators\<close>. \<^verbatim>\<open>level.infer\<close> and
  \<^verbatim>\<open>level.generate\<close> change the level they are called on and return it
  changed, beside their result; \<^verbatim>\<open>latent.re_init\<close> returns the latent variable
  re-initialised; the other methods are taken to return a value and leave their object
  as it is, and every method is taken to return. \<open>forward net x\<close> is the call
  \<^verbatim>\<open>net(x)\<close> of a module (the argument is \<^verbatim>\<open>None\<close> when
  \<^verbatim>\<open>generate\<close> ran over no level), \<open>module_parameters net\<close> what
  \<^verbatim>\<open>net.parameters()\<close> yields.
\<close>

record ('t, 'lat, 'b, 'n, 'p) collaborators =
  level_infer :: "('lat, 'b) level \<Rightarrow> 't \<Rightarrow> 't \<times> ('lat, 'b) level"
  level_generate :: "('lat, 'b) level \<Rightarrow> 't option \<Rightarrow> bool \<Rightarrow> int \<Rightarrow> 't \<times> ('lat, 'b) level"
  level_inference_parameters :: "('lat, 'b) level \<Rightarrow> 'p list"
  level_generative_parameters :: "('lat, 'b) level \<Rightarrow> 'p list"
  approx_posterior_gradients :: "'lat \<Rightarrow> 't list"
  approx_posterior_parameters :: "'lat \<Rightarrow> 't list"
  latent_error :: "'lat \<Rightarrow> 't"
  latent_re_init :: "'lat \<Rightarrow> 'lat"
  forward :: "'n \<Rightarrow> 't option \<Rightarrow> 't"
  module_parameters :: "'n \<Rightarrow> 'p list"
  sample :: "'t distribution \<Rightarrow> 't"

text \<open>
  \<^verbatim>\<open>torch.cat(xs, dim=d)\<close> and \<^verbatim>\<open>torch.exp(x)\<close> as the file writes them:
  the global \<^verbatim>\<open>torch\<close> is loaded first, then the function is applied.
\<close>

definition torch_cat :: "'t tensor_ops \<Rightarrow> 't list \<Rightarrow> nat \<Rightarrow> error + 't" where
  "torch_cat ops xs d = bind_result (load_global ''torch'') (\<lambda>_. Inr (t_cat ops xs d))"

definition torch_exp :: "'t tensor_ops \<Rightarrow> 't \<Rightarrow> error + 't" where
  "torch_exp ops x = bind_result (load_global ''torch'') (\<lambda>_. Inr (t_exp ops x))"

section \<open>The encoding form\<close>

text \<open>
  Lines 109 and 110: a two-axis observation is unsqueezed and repeated along the
  sample axis, any other observation is left as it is.
\<close>

definition broadcast_observation :: "'t tensor_ops \<Rightarrow> nat \<Rightarrow> 't \<Rightarrow> 't" where
  "broadcast_observation ops n_samples observation =
     (if length (t_shape ops observation) = 2
      then t_repeat ops (t_unsqueeze ops observation 1) [1, n_samples, 1]
      else observation)"

text \<open>
  \<^verbatim>\<open>_output_error\<close> (lines 100 to 120). The subscript \<^verbatim>\<open>shape[1]\<close> raises
  IndexError on a mean with fewer than two axes. In the Normal branch the left operand
  of the division, \<^verbatim>\<open>observation - output_mean\<close>, is evaluated before
  \<^verbatim>\<open>torch.exp\<close> is looked up, so an exception of the subtraction comes first.
\<close>

definition output_error ::
  "'t tensor_ops \<Rightarrow> ('t, 'lat, 'b, 'n) model \<Rightarrow> 't \<Rightarrow> error + 't" where
  "output_error ops self observation =
     (let output_mean = t_detach ops (mean (output_dist self)) in
      bind_result (getitem (t_shape ops output_mean) 1) (\<lambda>n_samples.
      let observation = broadcast_observation ops n_samples observation in
      bind_result
        (case family (output_dist self) of
           Normal \<Rightarrow>
             (let output_log_var = t_detach ops (log_var (output_dist self)) in
              bind_result (t_sub ops observation output_mean) (\<lambda>residual.
              bind_result (torch_exp ops (t_add_scalar ops output_log_var (1 / 10000000)))
                (\<lambda>variance. Inr (t_div ops residual variance))))
         | Bernoulli \<Rightarrow> Inl NotImplementedError
         | Multinomial \<Rightarrow> Inl NotImplementedError)
        (\<lambda>n_error. Inr (t_mean ops n_error 1))))"

text \<open>
  The number of axes of the stored output mean, \<^verbatim>\<open>len(output_mean.data.shape)\<close>
  for the \<^verbatim>\<open>output_mean\<close> of \<^verbatim>\<open>_output_error\<close>, which reads the
  number of samples from axis 1 of that mean: the subscript \<^verbatim>\<open>shape[1]\<close> is in
  range exactly when the mean has two axes or more.
\<close>

definition mean_rank :: "'t tensor_ops \<Rightarrow> ('t, 'lat, 'b, 'n) model \<Rightarrow> nat" where
  "mean_rank ops self = length (t_shape ops (t_detach ops (mean (output_dist self))))"

text \<open>
  What \<^verbatim>\<open>_output_error\<close> computes on the way to the left operand of the
  division of line 113, whatever the family: the detached mean of line 107, the
  sample count of line 108, the observation of lines 109 and 110, and their
  difference \<^verbatim>\<open>observation - output_mean\<close>. It fails with the IndexError of
  \<^verbatim>\<open>shape[1]\<close> or with the exception of the subtraction.
\<close>

definition output_residual ::
  "'t tensor_ops \<Rightarrow> ('t, 'lat, 'b, 'n) model \<Rightarrow> 't \<Rightarrow> error + 't" where
  "output_residual ops self observation =
     (let output_mean = t_detach ops (mean (output_dist self)) in
      bind_result (getitem (t_shape ops output_mean) 1) (\<lambda>n_samples.
        t_sub ops (broadcast_observation ops n_samples observation) output_mean))"

text \<open>The block under \<^verbatim>\<open>if 'gradient' in self.inference_procedure\<close> (lines 85 to 89).\<close>

definition gradient_form ::
  "'t tensor_ops \<Rightarrow> ('t, 'lat, 'b, 'n, 'p) collaborators \<Rightarrow> ('t, 'lat, 'b, 'n) model \<Rightarrow>
   error + 't" where
  "gradient_form ops ext self =
     bind_result (getitem (latent_levels self) 0) (\<lambda>level0.
     let grads = approx_posterior_gradients ext (latent level0) in
     bind_result (torch_cat ops (map (layer_norm ops) grads) 1) (\<lambda>grads.
     bind_result (getitem (latent_levels self) 0) (\<lambda>level0.
     let params = approx_posterior_parameters ext (latent level0) in
     bind_result (torch_cat ops (map (layer_norm ops) params) 1) (\<lambda>params.
     torch_cat ops [grads, params] 1))))"

text \<open>The block under \<^verbatim>\<open>if 'error' in self.inference_procedure\<close> (lines 92 to 96).\<close>

definition error_form ::
  "'t tensor_ops \<Rightarrow> ('t, 'lat, 'b, 'n, 'p) collaborators \<Rightarrow> ('t, 'lat, 'b, 'n) model \<Rightarrow>
   't \<Rightarrow> error + 't" where
  "error_form ops ext self observation =
     bind_result (output_error ops self observation) (\<lambda>out_err.
     bind_result (getitem (latent_levels self) 0) (\<lambda>level0.
     let errors = [out_err, latent_error ext (latent level0)] in
     bind_result (torch_cat ops (map (layer_norm ops) errors) 1) (\<lambda>errors.
     bind_result (getitem (latent_levels self) 0) (\<lambda>level0.
     let params = approx_posterior_parameters ext (latent level0) in
     bind_result (torch_cat ops (map (layer_norm ops) params) 1) (\<lambda>params.
     torch_cat ops [errors, params] 1)))))"

text \<open>
  \<^verbatim>\<open>_get_encoding_form\<close> (lines 74 to 98): the list \<^verbatim>\<open>encoding\<close> grows by
  one entry per mode found in \<^verbatim>\<open>self.inference_procedure\<close>.
\<close>

definition get_encoding_form ::
  "'t tensor_ops \<Rightarrow> ('t, 'lat, 'b, 'n, 'p) collaborators \<Rightarrow> ('t, 'lat, 'b, 'n) model \<Rightarrow>
   't \<Rightarrow> error + 't" where
  "get_encoding_form ops ext self observation =
     (let encoding =
            (if ''observation'' \<in> set (inference_procedure self)
             then [t_sub_scalar ops observation (1 / 2)] else []) in
      bind_result
        (if ''gradient'' \<in> set (inference_procedure self)
         then bind_result (gradient_form ops ext self) (\<lambda>grads_params.
                Inr (encoding @ [grads_params]))
         else Inr encoding) (\<lambda>encoding.
      bind_result
        (if ''error'' \<in> set (inference_procedure self)
         then bind_result (error_form ops ext self observation) (\<lambda>errors_params.
                Inr (encoding @ [errors_params]))
         else Inr encoding) (\<lambda>encoding.
      if length encoding = 1 then Inr (encoding ! 0) else torch_cat ops encoding 1)))"

section \<open>Inference and generation\<close>

text \<open>
  \<^verbatim>\<open>for level in self.latent_levels: encoding = level.infer(encoding)\<close>. The
  result is the last encoding and the levels as the calls left them.
\<close>

fun infer_levels ::
  "('t, 'lat, 'b, 'n, 'p) collaborators \<Rightarrow> ('lat, 'b) level list \<Rightarrow> 't \<Rightarrow>
   't \<times> ('lat, 'b) level list" where
  "infer_levels ext [] encoding = (encoding, [])"
| "infer_levels ext (level # rest) encoding =
     (let (encoding', level') = level_infer ext level encoding;
          (final, rest') = infer_levels ext rest encoding'
      in (final, level' # rest'))"

definition infer ::
  "'t tensor_ops \<Rightarrow> ('t, 'lat, 'b, 'n, 'p) collaborators \<Rightarrow> ('t, 'lat, 'b, 'n) model \<Rightarrow>
   't \<Rightarrow> error + ('t, 'lat, 'b, 'n) model" where
  "infer ops ext self observation =
     bind_result (get_encoding_form ops ext self observation) (\<lambda>encoding.
       Inr (self\<lparr>latent_levels := snd (infer_levels ext (latent_levels self) encoding)\<rparr>))"

text \<open>
  The loop of \<^verbatim>\<open>generate\<close>, over the levels in the order given (the caller
  passes the reversed list), starting from the decoding given.
\<close>

fun generate_levels ::
  "('t, 'lat, 'b, 'n, 'p) collaborators \<Rightarrow> bool \<Rightarrow> int \<Rightarrow> ('lat, 'b) level list \<Rightarrow>
   't option \<Rightarrow> 't option \<times> ('lat, 'b) level list" where
  "generate_levels ext gen n_samples [] decoding = (decoding, [])"
| "generate_levels ext gen n_samples (level # rest) decoding =
     (let (decoding', level') = level_generate ext level decoding gen n_samples;
          (final, rest') = generate_levels ext gen n_samples rest (Some decoding')
      in (final, level' # rest'))"

text \<open>
  \<^verbatim>\<open>generate\<close> (lines 134 to 149) returns the sample; the second component is
  \<^verbatim>\<open>self\<close> afterwards. The levels are changed in place, so they keep their
  positions in \<^verbatim>\<open>self.latent_levels\<close>.
\<close>

definition generate ::
  "('t, 'lat, 'b, 'n, 'p) collaborators \<Rightarrow> ('t, 'lat, 'b, 'n) model \<Rightarrow> bool \<Rightarrow> int \<Rightarrow>
   't \<times> ('t, 'lat, 'b, 'n) model" where
  "generate ext self gen n_samples =
     (let (decoding, visited) =
            generate_levels ext gen n_samples (rev (latent_levels self)) None;
          decoding = forward ext (output_network self) decoding;
          dist = (output_dist self)\<lparr>mean := forward ext (output_mean self) (Some decoding)\<rparr>;
          dist = (if family dist = Normal
                  then dist\<lparr>log_var := forward ext (output_log_var self) (Some decoding)\<rparr>
                  else dist)
      in (sample ext dist, self\<lparr>latent_levels := rev visited, output_dist := dist\<rparr>))"

text \<open>
  \<^verbatim>\<open>re_init\<close> (lines 151 to 157): \<^verbatim>\<open>self.generate(gen=True)\<close>, with the
  default \<^verbatim>\<open>n_samples=1\<close>, then \<^verbatim>\<open>level.latent.re_init()\<close> on every level.
\<close>

definition re_init ::
  "('t, 'lat, 'b, 'n, 'p) collaborators \<Rightarrow> ('t, 'lat, 'b, 'n) model \<Rightarrow> ('t, 'lat, 'b, 'n) model" where
  "re_init ext self =
     (let (_, self) = generate ext self True 1
      in self\<lparr>latent_levels :=
                map (\<lambda>level. level\<lparr>latent := latent_re_init ext (latent level)\<rparr>)
                  (latent_levels self)\<rparr>)"

section \<open>Parameter accessors\<close>

text \<open>
  The attribute \<^verbatim>\<open>parameters\<close> of an \<^verbatim>\<open>nn.Module\<close> is a bound method.
  Calling it yields the parameters; \<^verbatim>\<open>list(...)\<close> of the method itself, not
  called, raises TypeError (a method is not iterable), and so does calling a list.
\<close>

datatype 'p py_value = BoundMethod "'p list" | Iterable "'p list"

fun py_call :: "'p py_value \<Rightarrow> error + 'p py_value" where
  "py_call (BoundMethod result) = Inr (Iterable result)"
| "py_call (Iterable xs) = Inl TypeError"

fun py_list :: "'p py_value \<Rightarrow> error + 'p list" where
  "py_list (Iterable xs) = Inr xs"
| "py_list (BoundMethod result) = Inl TypeError"

definition parameters_attr ::
  "('t, 'lat, 'b, 'n, 'p) collaborators \<Rightarrow> 'n \<Rightarrow> 'p py_value" where
  "parameters_attr ext net = BoundMethod (module_parameters ext net)"

text \<open>\<^verbatim>\<open>inference_parameters\<close> (lines 159 to 166).\<close>

definition inference_parameters ::
  "('t, 'lat, 'b, 'n, 'p) collaborators \<Rightarrow> ('t, 'lat, 'b, 'n) model \<Rightarrow> error + 'p list" where
  "inference_parameters ext self =
     Inr (concat (map (level_inference_parameters ext) (latent_levels self)))"

text \<open>
  \<^verbatim>\<open>generative_parameters\<close> (lines 168 to 179). Line 175 calls
  \<^verbatim>\<open>self.output_network.parameters()\<close>; line 176 passes
  \<^verbatim>\<open>self.output_mean.parameters\<close>, with no call, to \<^verbatim>\<open>list\<close>.
\<close>

definition generative_parameters ::
  "('t, 'lat, 'b, 'n, 'p) collaborators \<Rightarrow> ('t, 'lat, 'b, 'n) model \<Rightarrow> error + 'p list" where
  "generative_parameters ext self =
     (let params = concat (map (level_generative_parameters ext) (latent_levels self)) in
      bind_result (bind_result (py_call (parameters_attr ext (output_network self))) py_list)
        (\<lambda>network_params.
      let params = params @ network_params in
      bind_result (py_list (parameters_attr ext (output_mean self))) (\<lambda>mean_params.
      let params = params @ mean_params in
      if family (output_dist self) = Normal
      then bind_result (bind_result (py_call (parameters_attr ext (output_log_var self))) py_list)
             (\<lambda>log_var_params. Inr (params @ log_var_params))
      else Inr params)))"

section \<open>What the specification says, in its own words\<close>

text \<open>
  The lengths the specification calls consistent: \<open>L\<close> entries in the latent and
  inference lists, \<open>L + 1\<close> in the generative lists.
\<close>

definition consistent_lengths :: "model_config \<Rightarrow> bool" where
  "consistent_lengths cfg =
     (length (n_layers_inf cfg) = length (n_latent cfg) \<and>
      length (n_units_inf cfg) = length (n_latent cfg) \<and>
      length (n_layers_gen cfg) = length (n_latent cfg) + 1 \<and>
      length (n_units_gen cfg) = length (n_latent cfg) + 1)"

text \<open>
  The modes of \<^verbatim>\<open>inference_input_form\<close> that are active, in the fixed order
  observation, gradient, error.
\<close>

definition active_modes :: "('t, 'lat, 'b, 'n) model \<Rightarrow> string list" where
  "active_modes self =
     filter (\<lambda>mode. mode \<in> set (inference_procedure self))
       [''observation'', ''gradient'', ''error'']"

text \<open>
  Generation as the specification describes it, by recursion over the stack listed
  bottom first: a level receives the decoding of the stack above it, the top level
  receives \<^verbatim>\<open>None\<close>, and the result is the decoding the bottom level hands down,
  with the levels as their \<^verbatim>\<open>generate\<close> left them.
\<close>

fun top_down ::
  "('t, 'lat, 'b, 'n, 'p) collaborators \<Rightarrow> bool \<Rightarrow> int \<Rightarrow> ('lat, 'b) level list \<Rightarrow>
   't option \<times> ('lat, 'b) level list" where
  "top_down ext gen n_samples [] = (None, [])"
| "top_down ext gen n_samples (level # upper) =
     (let (from_above, upper') = top_down ext gen n_samples upper;
          (decoding, level') = level_generate ext level from_above gen n_samples
      in (Some decoding, level' # upper'))"

section \<open>A small instance\<close>

text \<open>
  Stand-ins for the tensor library and the collaborators, to run the methods on
  concrete inputs. A tensor is represented by its shape alone: every operation
  computes the shape of its result. A latent variable is the name of the state it is
  in, a level's networks and an output module are their output widths, a parameter is
  its name.

  Two shapes broadcast when, read from the last axis backwards, the sizes are equal
  or one of them is 1; the shorter shape is extended at the front. \<open>broadcast_rev\<close>
  works on the reversed shapes.
\<close>

fun broadcast_rev :: "nat list \<Rightarrow> nat list \<Rightarrow> nat list option" where
  "broadcast_rev [] ys = Some ys"
| "broadcast_rev (x # xs) [] = Some (x # xs)"
| "broadcast_rev (x # xs) (y # ys) =
     (if x = y \<or> y = 1 then map_option ((#) x) (broadcast_rev xs ys)
      else if x = 1 then map_option ((#) y) (broadcast_rev xs ys)
      else None)"

definition broadcast_shapes :: "nat list \<Rightarrow> nat list \<Rightarrow> error + nat list" where
  "broadcast_shapes x y =
     (case broadcast_rev (rev x) (rev y) of
        None \<Rightarrow> Inl RuntimeError
      | Some shape \<Rightarrow> Inr (rev shape))"

definition example_ops :: "nat list tensor_ops" where
  "example_ops =
     \<lparr>t_shape = (\<lambda>x. x),
      t_detach = (\<lambda>x. x),
      t_unsqueeze = (\<lambda>x d. take d x @ [1] @ drop d x),
      t_repeat = (\<lambda>x reps. map2 (*) x reps),
      t_sub = broadcast_shapes,
      t_sub_scalar = (\<lambda>x c. x),
      t_add_scalar = (\<lambda>x c. x),
      t_div = (\<lambda>x y. case broadcast_shapes x y of Inl e \<Rightarrow> x | Inr shape \<Rightarrow> shape),
      t_exp = (\<lambda>x. x),
      t_cat = (\<lambda>xs d. case xs of [] \<Rightarrow> [] | x # _ \<Rightarrow> x[d := sum_list (map (\<lambda>y. y ! d) xs)]),
      t_mean = (\<lambda>x d. take d x @ drop (Suc d) x),
      layer_norm = (\<lambda>x. x)\<rparr>"

definition example_ext :: "(nat list, string, nat, nat, string) collaborators" where
  "example_ext =
     \<lparr>level_infer = (\<lambda>level encoding. (butlast encoding @ [networks level],
                                        level\<lparr>latent := ''posterior''\<rparr>)),
      level_generate = (\<lambda>level decoding gen n_samples.
         ([4, nat n_samples, networks level],
          level\<lparr>latent := (if gen then ''prior'' else latent level)\<rparr>)),
      level_inference_parameters = (\<lambda>level. [''inference weight'']),
      level_generative_parameters = (\<lambda>level. [''generative weight'']),
      approx_posterior_gradients = (\<lambda>lat. [[4, 64], [4, 64]]),
      approx_posterior_parameters = (\<lambda>lat. [[4, 64], [4, 64]]),
      latent_error = (\<lambda>lat. [4, 64]),
      latent_re_init = (\<lambda>lat. ''initial''),
      forward = (\<lambda>net x. case x of None \<Rightarrow> [4, 1, net] | Some shape \<Rightarrow> butlast shape @ [net]),
      module_parameters = (\<lambda>net. [''weight'', ''bias'']),
      sample = (\<lambda>dist. mean dist)\<rparr>"

definition example_level :: "level_config \<Rightarrow> (string, nat) level" where
  "example_level config =
     \<lparr>latent = ''initial'', networks = nat (n_units (generative_config config))\<rparr>"

definition example_model :: "dist_family \<Rightarrow> (nat list, string, nat, nat) model" where
  "example_model fam =
     \<lparr>inference_procedure = [''observation''],
      latent_levels = [\<lparr>latent = ''posterior'', networks = 512\<rparr>,
                       \<lparr>latent = ''posterior'', networks = 256\<rparr>],
      output_network = 512,
      output_mean = 784,
      output_log_var = 784,
      output_dist = \<lparr>family = fam, mean = [4, 1, 784], log_var = [4, 1, 784]\<rparr>\<rparr>"

text \<open>One level of 64 latent variables, every list of the length the specification asks for.\<close>

definition example_config :: model_config where
  "example_config =
     \<lparr>inference_input_form = [''observation''],
      constant_variances_gen = True,
      n_latent = [64],
      n_layers_inf = [2],
      n_layers_gen = [2, 1],
      n_units_inf = [512],
      n_units_gen = [512, 1],
      non_linearity_inf = ''elu'',
      non_linearity_gen = ''elu'',
      connection_type_inf = ''highway'',
      connection_type_gen = ''sequential'',
      batch_norm_inf = False,
      batch_norm_gen = False\<rparr>"

text \<open>No level, and lists of lengths that do not fit each other.\<close>

definition example_unchecked_config :: model_config where
  "example_unchecked_config =
     example_config\<lparr>n_latent := [], n_layers_inf := [2, 0], n_units_inf := [512, 0]\<rparr>"

section \<open>Facts about construction\<close>

lemma bind_result_Inl [simp]: "bind_result (Inl e) f = Inl e"
  by (simp add: bind_result_def)

lemma bind_result_Inr [simp]: "bind_result (Inr v) f = f v"
  by (simp add: bind_result_def)

lemma bind_result_eq_Inr:
  "bind_result r f = Inr y \<longleftrightarrow> (\<exists>v. r = Inr v \<and> f v = Inr y)"
  by (cases r) simp_all

lemma bind_result_eq_Inl:
  "bind_result r f = Inl e \<longleftrightarrow> r = Inl e \<or> (\<exists>v. r = Inr v \<and> f v = Inl e)"
  by (cases r) simp_all

lemma getitem_Inl: "getitem xs i = Inl e \<Longrightarrow> e = IndexError"
  by (simp add: getitem_def split: if_splits)

lemma getitem_past_end: "length xs \<le> i \<Longrightarrow> getitem xs i = Inl IndexError"
  by (simp add: getitem_def)

lemma build_level_config_Inl: "build_level_config cfg i = Inl e \<Longrightarrow> e = IndexError"
  unfolding build_level_config_def
  by (auto simp: bind_result_eq_Inl dest: getitem_Inl)

lemma build_level_config_top:
  assumes "length (n_latent cfg) \<le> i + 1"
  shows "build_level_config cfg i = Inl IndexError"
proof (cases "build_level_config cfg i")
  case (Inl e)
  then show ?thesis using build_level_config_Inl by blast
next
  case (Inr c)
  then have "\<exists>v. getitem (n_latent cfg) (i + 1) = Inr v"
    unfolding build_level_config_def by (auto simp: bind_result_eq_Inr)
  with assms show ?thesis by (simp add: getitem_def)
qed

lemma construct_loop_Inl: "construct_loop mk cfg inds levels = Inl e \<Longrightarrow> e = IndexError"
proof (induction inds arbitrary: levels)
  case Nil
  then show ?case by simp
next
  case (Cons i inds)
  then show ?case
    by (auto simp: bind_result_eq_Inl dest: build_level_config_Inl)
qed

lemma construct_loop_fails:
  assumes "i \<in> set inds" and "build_level_config cfg i = Inl IndexError"
  shows "construct_loop mk cfg inds levels = Inl IndexError"
  using assms
proof (induction inds arbitrary: levels)
  case Nil
  then show ?case by simp
next
  case (Cons j inds)
  show ?case
  proof (cases "build_level_config cfg j")
    case (Inl e)
    then show ?thesis using build_level_config_Inl [OF Inl] by simp
  next
    case (Inr c)
    with Cons.prems have "i \<in> set inds"
      by auto
    with Cons.IH Cons.prems(2) Inr show ?thesis by simp
  qed
qed

lemma construct_loop_layers_unread:
  "construct_loop mk (cfg\<lparr>n_layers_inf := a, n_layers_gen := b\<rparr>) inds levels =
   construct_loop mk cfg inds levels"
  by (induction inds arbitrary: levels) (simp_all add: build_level_config_def)


lemma construct_Inl: "construct mk self cfg = Inl e \<Longrightarrow> e = IndexError"
  unfolding construct_def
  by (auto simp: bind_result_eq_Inl dest: construct_loop_Inl)

lemma construct_top_level_fails:
  assumes "n_latent cfg \<noteq> []"
  shows "construct mk self cfg = Inl IndexError"
proof -
  let ?top = "length (n_latent cfg) - 1"
  from assms have "?top \<in> set [0..<length (n_latent cfg)]"
    by simp
  moreover have "build_level_config cfg ?top = Inl IndexError"
    by (rule build_level_config_top) simp
  ultimately have "construct_loop mk cfg [0..<length (n_latent cfg)] [] = Inl IndexError"
    by (rule construct_loop_fails)
  then show ?thesis
    by (simp add: construct_def)
qed

lemma construct_no_levels:
  assumes "n_latent cfg = []"
  shows "construct mk self cfg =
         Inr (self\<lparr>inference_procedure := inference_input_form cfg, latent_levels := []\<rparr>)"
  using assms by (simp add: construct_def)

lemma construct_layers_unread:
  "construct mk self (cfg\<lparr>n_layers_inf := a, n_layers_gen := b\<rparr>) = construct mk self cfg"
  by (simp add: construct_def construct_loop_layers_unread)

section \<open>Construction: the claims\<close>

text \<open>
  C1. The specification says that a configuration with consistent lists builds one
  latent level per entry of \<^verbatim>\<open>n_latent\<close>, level \<open>i\<close> taking
  \<^verbatim>\<open>n_in = n_latent[i+1]\<close>. The code reads \<^verbatim>\<open>n_latent[level_ind+1]\<close> for
  every \<^verbatim>\<open>level_ind\<close> of \<^verbatim>\<open>range(len(n_latent))\<close>, the top level included,
  where the subscript is past the end: whenever \<^verbatim>\<open>n_latent\<close> has an entry at
  all, \<^verbatim>\<open>_construct\<close> raises IndexError and builds no model.
\<close>

theorem construct_raises_with_levels:
  "n_latent cfg \<noteq> [] \<Longrightarrow> construct mk self cfg = Inl IndexError"
  by (rule construct_top_level_fails)

theorem construct_raises_with_levels_witness:
  "consistent_lengths example_config \<and> n_latent example_config \<noteq> [] \<and>
   construct example_level (example_model Bernoulli) example_config = Inl IndexError"
  using construct_raises_with_levels [of example_config example_level "example_model Bernoulli"]
  by (simp add: example_config_def consistent_lengths_def)

text \<open>
  C2, as the specification states it: a configuration whose lists have inconsistent
  lengths is rejected at construction with a configuration error. The code checks no
  length. Here \<^verbatim>\<open>n_latent\<close> is empty while the inference lists have two entries,
  and construction succeeds with no level.
\<close>

theorem construct_accepts_inconsistent_lengths:
  "\<not> consistent_lengths example_unchecked_config \<and>
   construct example_level (example_model Bernoulli) example_unchecked_config =
     Inr ((example_model Bernoulli)\<lparr>inference_procedure := [''observation''],
                                     latent_levels := []\<rparr>)"
  by (simp add: example_unchecked_config_def example_config_def consistent_lengths_def
      construct_def)

text \<open>
  C2, amended: \<^verbatim>\<open>_construct\<close> validates no length. With an empty
  \<^verbatim>\<open>n_latent\<close> every configuration is accepted, whatever the other lists hold;
  \<^verbatim>\<open>n_layers_inf\<close> and \<^verbatim>\<open>n_layers_gen\<close> are never read, so their lengths
  change nothing; and when construction fails, the failure is the IndexError of a
  subscript past the end of a list, not a configuration error of its own.
\<close>

theorem construct_checks_no_lengths:
  "(n_latent cfg = [] \<longrightarrow>
      construct mk self cfg =
        Inr (self\<lparr>inference_procedure := inference_input_form cfg, latent_levels := []\<rparr>)) \<and>
   construct mk self (cfg\<lparr>n_layers_inf := a, n_layers_gen := b\<rparr>) = construct mk self cfg \<and>
   (construct mk self cfg = Inl e \<longrightarrow> e = IndexError)"
  using construct_no_levels construct_layers_unread construct_Inl
  by blast

theorem construct_checks_no_lengths_witness:
  "n_latent example_unchecked_config = [] \<and>
   construct example_level (example_model Bernoulli) example_unchecked_config =
     Inr ((example_model Bernoulli)\<lparr>inference_procedure := [''observation''],
                                     latent_levels := []\<rparr>) \<and>
   construct example_level (example_model Bernoulli)
     (example_unchecked_config\<lparr>n_layers_inf := [], n_layers_gen := [7, 7, 7]\<rparr>) =
     construct example_level (example_model Bernoulli) example_unchecked_config \<and>
   construct example_level (example_model Bernoulli)
     (example_config\<lparr>n_units_inf := []\<rparr>) = Inl IndexError"
  using construct_checks_no_lengths [where cfg = example_unchecked_config
      and mk = example_level and self = "example_model Bernoulli" and a = "[]"
      and b = "[7, 7, 7]" and e = IndexError]
    construct_top_level_fails [of "example_config\<lparr>n_units_inf := []\<rparr>" example_level
      "example_model Bernoulli"]
  by (simp add: example_unchecked_config_def example_config_def)

section \<open>Parameter accessors: the claims\<close>

text \<open>
  C3. The specification says that \<^verbatim>\<open>generative_parameters()\<close> returns the
  generative partition of the parameters, the output network's and the output
  distribution's sub-networks' included. The code passes the bound method
  \<^verbatim>\<open>self.output_mean.parameters\<close> to \<^verbatim>\<open>list\<close> without calling it (line
  176; lines 175 and 178 do call it): for every model \<^verbatim>\<open>generative_parameters()\<close>
  raises TypeError and returns no parameter set.
\<close>

theorem generative_parameters_raises:
  "generative_parameters ext self = Inl TypeError"
  by (simp add: generative_parameters_def parameters_attr_def)

section \<open>Facts about the encoding form\<close>

lemma load_torch: "load_global ''torch'' = Inl NameError"
  by (simp add: load_global_def module_globals_def)

lemma torch_cat_raises: "torch_cat ops xs d = Inl NameError"
  by (simp add: torch_cat_def load_torch)

lemma torch_exp_raises: "torch_exp ops x = Inl NameError"
  by (simp add: torch_exp_def load_torch)

lemma output_error_short_mean:
  "mean_rank ops self < 2 \<Longrightarrow> output_error ops self observation = Inl IndexError"
  by (simp add: output_error_def mean_rank_def getitem_def Let_def)

lemma output_residual_short_mean:
  "mean_rank ops self < 2 \<Longrightarrow> output_residual ops self observation = Inl IndexError"
  by (simp add: output_residual_def mean_rank_def getitem_def Let_def)

lemma output_error_unimplemented_family:
  "family (output_dist self) \<noteq> Normal \<Longrightarrow> 2 \<le> mean_rank ops self \<Longrightarrow>
   output_error ops self observation = Inl NotImplementedError"
  by (cases "family (output_dist self)")
    (simp_all add: output_error_def mean_rank_def getitem_def Let_def)

lemma output_error_normal:
  assumes "family (output_dist self) = Normal"
  shows "output_error ops self observation =
         (case output_residual ops self observation of
            Inl e \<Rightarrow> Inl e
          | Inr residual \<Rightarrow> Inl NameError)"
proof (cases "getitem (t_shape ops (t_detach ops (mean (output_dist self)))) 1")
  case (Inl e)
  then show ?thesis
    by (simp add: output_error_def output_residual_def Let_def)
next
  case (Inr n_samples)
  show ?thesis
  proof (cases "t_sub ops (broadcast_observation ops n_samples observation)
                  (t_detach ops (mean (output_dist self)))")
    case (Inl e)
    with Inr assms show ?thesis
      by (simp add: output_error_def output_residual_def Let_def)
  next
    case Inr': (Inr residual)
    with Inr assms show ?thesis
      by (simp add: output_error_def output_residual_def Let_def torch_exp_raises)
  qed
qed

lemma output_error_never_returns: "\<exists>e. output_error ops self observation = Inl e"
proof (cases "family (output_dist self) = Normal")
  case True
  then show ?thesis
    by (cases "output_residual ops self observation") (simp_all add: output_error_normal)
next
  case False
  show ?thesis
  proof (cases "2 \<le> mean_rank ops self")
    case True
    with False show ?thesis by (simp add: output_error_unimplemented_family)
  next
    case False
    then show ?thesis by (simp add: output_error_short_mean)
  qed
qed

lemma gradient_form_result:
  "gradient_form ops ext self =
     Inl (if latent_levels self = [] then IndexError else NameError)"
  by (simp add: gradient_form_def getitem_def torch_cat_raises Let_def)

lemma error_form_result:
  "output_error ops self observation = Inl e \<Longrightarrow> error_form ops ext self observation = Inl e"
  by (simp add: error_form_def)

lemma encoding_form_with_gradient:
  "''gradient'' \<in> set (inference_procedure self) \<Longrightarrow>
   get_encoding_form ops ext self observation =
     Inl (if latent_levels self = [] then IndexError else NameError)"
  by (simp add: get_encoding_form_def gradient_form_result Let_def)

lemma encoding_form_with_error:
  assumes "''gradient'' \<notin> set (inference_procedure self)"
    and "''error'' \<in> set (inference_procedure self)"
    and "output_error ops self observation = Inl e"
  shows "get_encoding_form ops ext self observation = Inl e"
  using assms by (simp add: get_encoding_form_def error_form_result Let_def)

lemma encoding_form_never_returns:
  assumes "''gradient'' \<in> set (inference_procedure self) \<or>
           ''error'' \<in> set (inference_procedure self)"
  shows "\<exists>e. get_encoding_form ops ext self observation = Inl e"
proof (cases "''gradient'' \<in> set (inference_procedure self)")
  case True
  then show ?thesis by (simp add: encoding_form_with_gradient)
next
  case False
  with assms have err: "''error'' \<in> set (inference_procedure self)"
    by simp
  obtain e where "output_error ops self observation = Inl e"
    using output_error_never_returns [of ops self observation] by (elim exE)
  with False err show ?thesis
    by (auto dest: encoding_form_with_error)
qed

lemma encoding_observation_alone:
  assumes "''observation'' \<in> set (inference_procedure self)"
    and "''gradient'' \<notin> set (inference_procedure self)"
    and "''error'' \<notin> set (inference_procedure self)"
  shows "get_encoding_form ops ext self observation = Inr (t_sub_scalar ops observation (1 / 2))"
  using assms by (simp add: get_encoding_form_def Let_def)

lemma several_active_modes:
  assumes "1 < length (active_modes self)"
  shows "''gradient'' \<in> set (inference_procedure self) \<or>
         ''error'' \<in> set (inference_procedure self)"
proof (rule ccontr)
  assume "\<not> ?thesis"
  then have "length (active_modes self) \<le> 1"
    by (simp add: active_modes_def)
  with assms show False by simp
qed

section \<open>The encoding form: the claims\<close>

text \<open>
  C4, as stated: every call of \<^verbatim>\<open>_get_encoding_form\<close> whose
  \<^verbatim>\<open>inference_procedure\<close> contains \<^verbatim>\<open>'gradient'\<close> or \<^verbatim>\<open>'error'\<close>
  raises NameError. With \<^verbatim>\<open>['error']\<close> and a Bernoulli output distribution the
  call reaches \<^verbatim>\<open>raise NotImplementedError\<close> in \<^verbatim>\<open>_output_error\<close>
  before any use of \<^verbatim>\<open>torch\<close>.
\<close>

theorem encoding_form_error_mode_bernoulli:
  "get_encoding_form example_ops example_ext
     ((example_model Bernoulli)\<lparr>inference_procedure := [''error'']\<rparr>) [4, 784] =
     Inl NotImplementedError \<and>
   get_encoding_form example_ops example_ext
     ((example_model Bernoulli)\<lparr>inference_procedure := [''error'']\<rparr>) [4, 784] \<noteq>
     Inl NameError"
  by (simp add: get_encoding_form_def error_form_def output_error_def example_model_def
      example_ops_def getitem_def Let_def)

text \<open>
  C4, amended. The module binds \<^verbatim>\<open>nn\<close> and never \<^verbatim>\<open>torch\<close>, so no call
  of \<^verbatim>\<open>_get_encoding_form\<close> whose \<^verbatim>\<open>inference_procedure\<close> contains
  \<^verbatim>\<open>'gradient'\<close> or \<^verbatim>\<open>'error'\<close> returns a value. The exception is the
  NameError of the first \<^verbatim>\<open>torch.cat\<close> when \<^verbatim>\<open>'gradient'\<close> is present and
  the model has a latent level. When \<^verbatim>\<open>'gradient'\<close> is absent and
  \<^verbatim>\<open>'error'\<close> present, with a Normal output distribution it is the NameError of
  \<^verbatim>\<open>torch.exp\<close> once the residual \<^verbatim>\<open>observation - output_mean\<close> of line
  113 has been formed, and otherwise the exception that kept the residual from being
  formed (the IndexError of \<^verbatim>\<open>shape[1]\<close>, or the library's exception for shapes
  that do not broadcast); with a Bernoulli or Multinomial output distribution and a
  stored mean of two axes or more it is the NotImplementedError of
  \<^verbatim>\<open>_output_error\<close>. A call of \<^verbatim>\<open>_output_error\<close> itself with a Normal
  output distribution raises the NameError of \<^verbatim>\<open>torch.exp\<close> once the residual
  has been formed, and the exception of that step otherwise.
\<close>

theorem encoding_form_torch_unbound:
  "(''gradient'' \<in> set (inference_procedure self) \<or>
    ''error'' \<in> set (inference_procedure self) \<longrightarrow>
      (\<exists>e. get_encoding_form ops ext self observation = Inl e)) \<and>
   (''gradient'' \<in> set (inference_procedure self) \<and> latent_levels self \<noteq> [] \<longrightarrow>
      get_encoding_form ops ext self observation = Inl NameError) \<and>
   (''gradient'' \<notin> set (inference_procedure self) \<and>
    ''error'' \<in> set (inference_procedure self) \<and> family (output_dist self) = Normal \<and>
    output_residual ops self observation = Inr residual \<longrightarrow>
      get_encoding_form ops ext self observation = Inl NameError) \<and>
   (''gradient'' \<notin> set (inference_procedure self) \<and>
    ''error'' \<in> set (inference_procedure self) \<and> family (output_dist self) = Normal \<and>
    output_residual ops self observation = Inl e \<longrightarrow>
      get_encoding_form ops ext self observation = Inl e) \<and>
   (''gradient'' \<notin> set (inference_procedure self) \<and>
    ''error'' \<in> set (inference_procedure self) \<and> family (output_dist self) \<noteq> Normal \<and>
    2 \<le> mean_rank ops self \<longrightarrow>
      get_encoding_form ops ext self observation = Inl NotImplementedError) \<and>
   (family (output_dist self) = Normal \<and>
    output_residual ops self observation = Inr residual \<longrightarrow>
      output_error ops self observation = Inl NameError) \<and>
   (family (output_dist self) = Normal \<and>
    output_residual ops self observation = Inl e \<longrightarrow>
      output_error ops self observation = Inl e)"
proof (intro conjI impI)
  assume "''gradient'' \<in> set (inference_procedure self) \<or>
          ''error'' \<in> set (inference_procedure self)"
  then show "\<exists>e. get_encoding_form ops ext self observation = Inl e"
    by (rule encoding_form_never_returns)
next
  assume "''gradient'' \<in> set (inference_procedure self) \<and> latent_levels self \<noteq> []"
  then show "get_encoding_form ops ext self observation = Inl NameError"
    by (simp add: encoding_form_with_gradient)
next
  assume a: "''gradient'' \<notin> set (inference_procedure self) \<and>
             ''error'' \<in> set (inference_procedure self) \<and>
             family (output_dist self) = Normal \<and>
             output_residual ops self observation = Inr residual"
  then have "output_error ops self observation = Inl NameError"
    by (simp add: output_error_normal)
  with a show "get_encoding_form ops ext self observation = Inl NameError"
    by (simp add: encoding_form_with_error)
next
  assume a: "''gradient'' \<notin> set (inference_procedure self) \<and>
             ''error'' \<in> set (inference_procedure self) \<and>
             family (output_dist self) = Normal \<and>
             output_residual ops self observation = Inl e"
  then have "output_error ops self observation = Inl e"
    by (simp add: output_error_normal)
  with a show "get_encoding_form ops ext self observation = Inl e"
    by (simp add: encoding_form_with_error)
next
  assume a: "''gradient'' \<notin> set (inference_procedure self) \<and>
             ''error'' \<in> set (inference_procedure self) \<and>
             family (output_dist self) \<noteq> Normal \<and> 2 \<le> mean_rank ops self"
  then have "output_error ops self observation = Inl NotImplementedError"
    by (simp add: output_error_unimplemented_family)
  with a show "get_encoding_form ops ext self observation = Inl NotImplementedError"
    by (simp add: encoding_form_with_error)
next
  assume "family (output_dist self) = Normal \<and>
          output_residual ops self observation = Inr residual"
  then show "output_error ops self observation = Inl NameError"
    by (simp add: output_error_normal)
next
  assume "family (output_dist self) = Normal \<and>
          output_residual ops self observation = Inl e"
  then show "output_error ops self observation = Inl e"
    by (simp add: output_error_normal)
qed

theorem encoding_form_torch_unbound_witness:
  "get_encoding_form example_ops example_ext
     ((example_model Normal)\<lparr>inference_procedure := [''observation'', ''gradient'']\<rparr>)
     [4, 784] = Inl NameError \<and>
   output_residual example_ops
     ((example_model Normal)\<lparr>inference_procedure := [''error'']\<rparr>) [4, 784] =
     Inr [4, 1, 784] \<and>
   get_encoding_form example_ops example_ext
     ((example_model Normal)\<lparr>inference_procedure := [''error'']\<rparr>) [4, 784] =
     Inl NameError \<and>
   output_residual example_ops
     ((example_model Normal)
        \<lparr>inference_procedure := [''error''],
         output_dist := \<lparr>family = Normal, mean = [4, 784], log_var = [4, 784]\<rparr>\<rparr>)
     [4, 784] = Inl RuntimeError \<and>
   get_encoding_form example_ops example_ext
     ((example_model Normal)
        \<lparr>inference_procedure := [''error''],
         output_dist := \<lparr>family = Normal, mean = [4, 784], log_var = [4, 784]\<rparr>\<rparr>)
     [4, 784] = Inl RuntimeError \<and>
   get_encoding_form example_ops example_ext
     ((example_model Multinomial)\<lparr>inference_procedure := [''error'']\<rparr>) [4, 784] =
     Inl NotImplementedError \<and>
   output_error example_ops (example_model Normal) [4, 784] = Inl NameError"
  using encoding_form_torch_unbound [where ops = example_ops and ext = example_ext
      and self = "(example_model Normal)\<lparr>inference_procedure := [''observation'', ''gradient'']\<rparr>"
      and observation = "[4, 784]"]
    encoding_form_torch_unbound [where ops = example_ops and ext = example_ext
      and self = "(example_model Normal)\<lparr>inference_procedure := [''error'']\<rparr>"
      and observation = "[4, 784]" and residual = "[4, 1, 784]"]
    encoding_form_torch_unbound [where ops = example_ops and ext = example_ext
      and self = "(example_model Normal)
        \<lparr>inference_procedure := [''error''],
         output_dist := \<lparr>family = Normal, mean = [4, 784], log_var = [4, 784]\<rparr>\<rparr>"
      and observation = "[4, 784]" and e = RuntimeError]
    encoding_form_torch_unbound [where ops = example_ops and ext = example_ext
      and self = "(example_model Multinomial)\<lparr>inference_procedure := [''error'']\<rparr>"
      and observation = "[4, 784]"]
    encoding_form_torch_unbound [where ops = example_ops and ext = example_ext
      and self = "example_model Normal" and observation = "[4, 784]"
      and residual = "[4, 1, 784]"]
  by (simp add: example_model_def example_ops_def mean_rank_def output_residual_def
      broadcast_observation_def broadcast_shapes_def getitem_def Let_def)

text \<open>
  C5, as stated: with a Bernoulli or Multinomial output distribution
  \<^verbatim>\<open>_output_error\<close> raises the not-implemented condition, for every model. The
  method reads \<^verbatim>\<open>output_mean.data.shape[1]\<close> on line 108, before it looks at
  the family: on a Bernoulli model whose stored mean has one axis the exception is the
  IndexError of that subscript.
\<close>

theorem output_error_bernoulli_one_axis_mean:
  "family (output_dist
     ((example_model Bernoulli)
        \<lparr>output_dist := \<lparr>family = Bernoulli, mean = [4], log_var = [4]\<rparr>\<rparr>)) = Bernoulli \<and>
   output_error example_ops
     ((example_model Bernoulli)
        \<lparr>output_dist := \<lparr>family = Bernoulli, mean = [4], log_var = [4]\<rparr>\<rparr>) [4, 784] =
     Inl IndexError \<and>
   output_error example_ops
     ((example_model Bernoulli)
        \<lparr>output_dist := \<lparr>family = Bernoulli, mean = [4], log_var = [4]\<rparr>\<rparr>) [4, 784] \<noteq>
     Inl NotImplementedError"
  by (simp add: output_error_def example_model_def example_ops_def getitem_def Let_def)

text \<open>
  C5, amended. With a Bernoulli or Multinomial output distribution
  \<^verbatim>\<open>_output_error\<close> returns no value, and whenever the stored output mean has two
  axes or more (so that \<^verbatim>\<open>output_mean.data.shape[1]\<close> exists) the exception is
  NotImplementedError.
\<close>

theorem output_error_not_implemented:
  assumes "family (output_dist self) = Bernoulli \<or> family (output_dist self) = Multinomial"
  shows "(\<exists>e. output_error ops self observation = Inl e) \<and>
         (2 \<le> mean_rank ops self \<longrightarrow>
            output_error ops self observation = Inl NotImplementedError)"
  using assms output_error_never_returns [of ops self observation]
    output_error_unimplemented_family [of self ops observation]
  by auto

theorem output_error_not_implemented_witness:
  "family (output_dist (example_model Bernoulli)) = Bernoulli \<and>
   2 \<le> mean_rank example_ops (example_model Bernoulli) \<and>
   output_error example_ops (example_model Bernoulli) [4, 784] = Inl NotImplementedError \<and>
   output_error example_ops (example_model Multinomial) [4, 784] = Inl NotImplementedError"
  using output_error_not_implemented [of "example_model Bernoulli" example_ops "[4, 784]"]
    output_error_not_implemented [of "example_model Multinomial" example_ops "[4, 784]"]
  by (simp add: example_model_def example_ops_def mean_rank_def)

text \<open>
  C6. When \<^verbatim>\<open>inference_procedure\<close> is \<^verbatim>\<open>['observation']\<close>,
  \<^verbatim>\<open>_get_encoding_form\<close> returns \<^verbatim>\<open>observation - 0.5\<close> itself: the one
  entry of \<^verbatim>\<open>encoding\<close>, with no concatenation.
\<close>

theorem encoding_form_observation_only:
  "inference_procedure self = [''observation''] \<Longrightarrow>
   get_encoding_form ops ext self observation = Inr (t_sub_scalar ops observation (1 / 2))"
  by (rule encoding_observation_alone) simp_all

theorem encoding_form_observation_only_witness:
  "inference_procedure (example_model Bernoulli) = [''observation''] \<and>
   get_encoding_form example_ops example_ext (example_model Bernoulli) [4, 784] =
     Inr [4, 784]"
  using encoding_form_observation_only [of "example_model Bernoulli" example_ops example_ext
      "[4, 784]"]
  by (simp add: example_model_def example_ops_def)

text \<open>
  C7. The specification says that several active modes are concatenated along the
  feature axis. The concatenation is \<^verbatim>\<open>torch.cat\<close>, and \<^verbatim>\<open>torch\<close> is not
  bound in the module: with more than one active mode \<^verbatim>\<open>_get_encoding_form\<close>
  raises and returns no tensor, of whatever width.
\<close>

theorem encoding_form_several_modes_raises:
  "1 < length (active_modes self) \<Longrightarrow>
   \<exists>e. get_encoding_form ops ext self observation = Inl e"
  by (rule encoding_form_never_returns) (rule several_active_modes)

theorem encoding_form_several_modes_raises_witness:
  "1 < length (active_modes
         ((example_model Normal)\<lparr>inference_procedure := [''observation'', ''gradient'']\<rparr>)) \<and>
   get_encoding_form example_ops example_ext
     ((example_model Normal)\<lparr>inference_procedure := [''observation'', ''gradient'']\<rparr>)
     [4, 784] = Inl NameError"
  using encoding_form_several_modes_raises [where ops = example_ops and ext = example_ext
      and self = "(example_model Normal)\<lparr>inference_procedure := [''observation'', ''gradient'']\<rparr>"
      and observation = "[4, 784]"]
    encoding_form_with_gradient [where ops = example_ops and ext = example_ext
      and self = "(example_model Normal)\<lparr>inference_procedure := [''observation'', ''gradient'']\<rparr>"
      and observation = "[4, 784]"]
  by (simp add: active_modes_def example_model_def)

text \<open>
  C9. The specification says that with a Normal output distribution
  \<^verbatim>\<open>_output_error\<close> returns the residual divided by the variance. The variance is
  \<^verbatim>\<open>torch.exp(...)\<close>, and \<^verbatim>\<open>torch\<close> is not bound in the module: the call
  returns no residual. It raises NameError once the residual
  \<^verbatim>\<open>observation - output_mean\<close> has been formed, and before that the exception
  that kept it from being formed: the IndexError of \<^verbatim>\<open>shape[1]\<close> on a mean with
  fewer than two axes, or the library's exception for shapes that do not broadcast.
\<close>

theorem output_error_normal_raises:
  "family (output_dist self) = Normal \<Longrightarrow>
   (\<exists>e. output_error ops self observation = Inl e) \<and>
   output_error ops self observation =
     (case output_residual ops self observation of
        Inl e \<Rightarrow> Inl e
      | Inr residual \<Rightarrow> Inl NameError) \<and>
   (mean_rank ops self < 2 \<longrightarrow> output_error ops self observation = Inl IndexError)"
  using output_error_never_returns [of ops self observation]
    output_error_normal [of self ops observation]
    output_error_short_mean [of ops self observation]
  by simp

theorem output_error_normal_raises_witness:
  "family (output_dist (example_model Normal)) = Normal \<and>
   output_residual example_ops (example_model Normal) [4, 784] = Inr [4, 1, 784] \<and>
   output_error example_ops (example_model Normal) [4, 784] = Inl NameError \<and>
   output_error example_ops
     ((example_model Normal)
        \<lparr>output_dist := \<lparr>family = Normal, mean = [4, 1, 10], log_var = [4, 1, 10]\<rparr>\<rparr>)
     [4, 784] = Inl RuntimeError \<and>
   output_error example_ops
     ((example_model Normal)
        \<lparr>output_dist := \<lparr>family = Normal, mean = [4], log_var = [4]\<rparr>\<rparr>)
     [4, 784] = Inl IndexError"
  using output_error_normal_raises [of "example_model Normal" example_ops "[4, 784]"]
    output_error_normal_raises [of "(example_model Normal)
        \<lparr>output_dist := \<lparr>family = Normal, mean = [4, 1, 10], log_var = [4, 1, 10]\<rparr>\<rparr>"
      example_ops "[4, 784]"]
    output_error_normal_raises [of "(example_model Normal)
        \<lparr>output_dist := \<lparr>family = Normal, mean = [4], log_var = [4]\<rparr>\<rparr>"
      example_ops "[4, 784]"]
  by (simp add: example_model_def example_ops_def mean_rank_def output_residual_def
      broadcast_observation_def broadcast_shapes_def getitem_def Let_def)

section \<open>Facts about the loops over the levels\<close>

lemma generate_levels_append:
  "generate_levels ext gen n (xs @ ys) decoding =
     (let (d1, xs') = generate_levels ext gen n xs decoding;
          (d2, ys') = generate_levels ext gen n ys d1
      in (d2, xs' @ ys'))"
  by (induction xs arbitrary: decoding) (simp_all add: case_prod_unfold Let_def)

lemma generate_levels_rev:
  "generate_levels ext gen n (rev levels) None =
     (fst (top_down ext gen n levels), rev (snd (top_down ext gen n levels)))"
  by (induction levels) (simp_all add: generate_levels_append case_prod_unfold Let_def)

lemma length_top_down: "length (snd (top_down ext gen n levels)) = length levels"
  by (induction levels) (simp_all add: case_prod_unfold Let_def)

lemma top_down_nth:
  "i < length levels \<Longrightarrow>
   snd (top_down ext gen n levels) ! i =
     snd (level_generate ext (levels ! i) (fst (top_down ext gen n (drop (Suc i) levels))) gen n)"
proof (induction levels arbitrary: i)
  case Nil
  then show ?case by simp
next
  case (Cons level upper)
  show ?case
  proof (cases i)
    case 0
    then show ?thesis by (simp add: case_prod_unfold Let_def)
  next
    case (Suc j)
    with Cons.prems have "j < length upper" by simp
    with Cons.IH Suc show ?thesis by (simp add: case_prod_unfold Let_def)
  qed
qed

lemma length_infer_levels: "length (snd (infer_levels ext levels encoding)) = length levels"
  by (induction levels arbitrary: encoding) (simp_all add: case_prod_unfold Let_def)

lemma infer_levels_nth:
  "i < length levels \<Longrightarrow>
   snd (infer_levels ext levels encoding) ! i =
     snd (level_infer ext (levels ! i) (fst (infer_levels ext (take i levels) encoding)))"
proof (induction levels arbitrary: i encoding)
  case Nil
  then show ?case by simp
next
  case (Cons level upper)
  show ?case
  proof (cases i)
    case 0
    then show ?thesis by (simp add: case_prod_unfold Let_def)
  next
    case (Suc j)
    with Cons.prems have "j < length upper" by simp
    with Cons.IH Suc show ?thesis by (simp add: case_prod_unfold Let_def)
  qed
qed

lemma generate_by_top_down:
  "generate ext self gen n =
     (let (bottom, levels') = top_down ext gen n (latent_levels self);
          decoding = forward ext (output_network self) bottom;
          dist = (output_dist self)
            \<lparr>mean := forward ext (output_mean self) (Some decoding),
             log_var := (if family (output_dist self) = Normal
                         then forward ext (output_log_var self) (Some decoding)
                         else log_var (output_dist self))\<rparr>
      in (sample ext dist, self\<lparr>latent_levels := levels', output_dist := dist\<rparr>))"
  by (simp add: generate_def generate_levels_rev case_prod_unfold Let_def)

lemma levels_after_generate:
  "latent_levels (snd (generate ext self gen n)) = snd (top_down ext gen n (latent_levels self))"
  by (simp add: generate_by_top_down case_prod_unfold Let_def)

section \<open>Generation and re-initialisation: the claims\<close>

text \<open>
  C8. \<^verbatim>\<open>generate\<close> runs the levels from the top of the stack to the bottom:
  it is the recursion \<open>top_down\<close>, in which the top level receives \<^verbatim>\<open>None\<close>
  and every other level the decoding of the level above. The bottom decoding goes
  through the output network; the output mean is set from the result, the
  log-variance too exactly when the output distribution is Normal, and the value
  returned is \<^verbatim>\<open>sample()\<close> of the output distribution so updated. Level \<open>i\<close>
  is called on the decoding that the levels above \<open>i\<close> produce, whereas in
  \<^verbatim>\<open>infer\<close> it is called on the encoding that the levels below \<open>i\<close> produce.
\<close>

theorem generate_top_down:
  "generate ext self gen n_samples =
     (let (bottom, levels') = top_down ext gen n_samples (latent_levels self);
          decoding = forward ext (output_network self) bottom;
          dist = (output_dist self)
            \<lparr>mean := forward ext (output_mean self) (Some decoding),
             log_var := (if family (output_dist self) = Normal
                         then forward ext (output_log_var self) (Some decoding)
                         else log_var (output_dist self))\<rparr>
      in (sample ext dist, self\<lparr>latent_levels := levels', output_dist := dist\<rparr>)) \<and>
   (\<forall>i < length (latent_levels self).
      latent_levels (snd (generate ext self gen n_samples)) ! i =
        snd (level_generate ext (latent_levels self ! i)
               (fst (top_down ext gen n_samples (drop (Suc i) (latent_levels self))))
               gen n_samples)) \<and>
   (\<forall>i < length (latent_levels self).
      snd (infer_levels ext (latent_levels self) encoding) ! i =
        snd (level_infer ext (latent_levels self ! i)
               (fst (infer_levels ext (take i (latent_levels self)) encoding))))"
proof (intro conjI)
  show "generate ext self gen n_samples =
     (let (bottom, levels') = top_down ext gen n_samples (latent_levels self);
          decoding = forward ext (output_network self) bottom;
          dist = (output_dist self)
            \<lparr>mean := forward ext (output_mean self) (Some decoding),
             log_var := (if family (output_dist self) = Normal
                         then forward ext (output_log_var self) (Some decoding)
                         else log_var (output_dist self))\<rparr>
      in (sample ext dist, self\<lparr>latent_levels := levels', output_dist := dist\<rparr>))"
    by (rule generate_by_top_down)
next
  show "\<forall>i < length (latent_levels self).
      latent_levels (snd (generate ext self gen n_samples)) ! i =
        snd (level_generate ext (latent_levels self ! i)
               (fst (top_down ext gen n_samples (drop (Suc i) (latent_levels self))))
               gen n_samples)"
    by (simp add: levels_after_generate top_down_nth)
next
  show "\<forall>i < length (latent_levels self).
      snd (infer_levels ext (latent_levels self) encoding) ! i =
        snd (level_infer ext (latent_levels self ! i)
               (fst (infer_levels ext (take i (latent_levels self)) encoding)))"
    by (simp add: infer_levels_nth)
qed

theorem generate_top_down_witness:
  "(1::nat) < length (latent_levels (example_model Normal)) \<and>
   fst (generate example_ext (example_model Normal) True 3) = [4, 3, 784] \<and>
   latent_levels (snd (generate example_ext (example_model Normal) True 3)) ! 1 =
     snd (level_generate example_ext (latent_levels (example_model Normal) ! 1) None True 3) \<and>
   latent_levels (snd (generate example_ext (example_model Normal) True 3)) ! 0 =
     snd (level_generate example_ext (latent_levels (example_model Normal) ! 0)
            (Some [4, 3, 256]) True 3) \<and>
   log_var (output_dist (snd (generate example_ext (example_model Normal) True 3))) =
     [4, 3, 784] \<and>
   log_var (output_dist (snd (generate example_ext (example_model Bernoulli) True 3))) =
     [4, 1, 784]"
  using generate_top_down [of example_ext "example_model Normal" True 3 "[4, 784]"]
    generate_top_down [of example_ext "example_model Bernoulli" True 3 "[4, 784]"]
  by (simp add: example_model_def example_ext_def case_prod_unfold Let_def)

text \<open>
  C10. \<^verbatim>\<open>re_init\<close> runs \<^verbatim>\<open>generate\<close> once with \<^verbatim>\<open>gen=True\<close> (and the
  default single sample), then calls \<^verbatim>\<open>latent.re_init()\<close> on every level of the
  stack: each level of the result is the level \<^verbatim>\<open>generate\<close> left, with its
  latent variable re-initialised and its networks untouched; no level is added or
  dropped, and the output distribution is the one \<^verbatim>\<open>generate\<close> left.
\<close>

theorem re_init_resets_every_level:
  "re_init ext self =
     (snd (generate ext self True 1))
       \<lparr>latent_levels :=
          map (\<lambda>level. level\<lparr>latent := latent_re_init ext (latent level)\<rparr>)
            (latent_levels (snd (generate ext self True 1)))\<rparr> \<and>
   length (latent_levels (re_init ext self)) = length (latent_levels self) \<and>
   (\<forall>i < length (latent_levels self).
      latent (latent_levels (re_init ext self) ! i) =
        latent_re_init ext (latent (latent_levels (snd (generate ext self True 1)) ! i)) \<and>
      networks (latent_levels (re_init ext self) ! i) =
        networks (latent_levels (snd (generate ext self True 1)) ! i)) \<and>
   output_dist (re_init ext self) = output_dist (snd (generate ext self True 1))"
  by (simp add: re_init_def case_prod_unfold levels_after_generate length_top_down)

theorem re_init_resets_every_level_witness:
  "(1::nat) < length (latent_levels (example_model Bernoulli)) \<and>
   map latent (latent_levels (snd (generate example_ext (example_model Bernoulli) True 1))) =
     [''prior'', ''prior''] \<and>
   latent (latent_levels (re_init example_ext (example_model Bernoulli)) ! 1) = ''initial'' \<and>
   map latent (latent_levels (re_init example_ext (example_model Bernoulli))) =
     [''initial'', ''initial''] \<and>
   mean (output_dist (re_init example_ext (example_model Bernoulli))) = [4, 1, 784]"
  using re_init_resets_every_level [of example_ext "example_model Bernoulli"]
  by (simp add: generate_def example_model_def example_ext_def case_prod_unfold Let_def)

end
